theory Spec2Isabelle
  imports Complex_Main
begin

section \<open>Data model\<close>

text \<open>
  The table \<^verbatim>\<open>public.trading_records\<close> of the migration and the client-side interface
  \<^verbatim>\<open>TradingRecord\<close> describe the same rows (\<^verbatim>\<open>select('*')\<close> returns every column).
  A JavaScript \<^verbatim>\<open>number\<close> that comes out of a \<^verbatim>\<open>NUMERIC\<close> column is modelled as an exact
  rational: rounding, \<^verbatim>\<open>Infinity\<close> and \<^verbatim>\<open>NaN\<close> are not part of the model. The \<^verbatim>\<open>INTEGER\<close>
  column \<^verbatim>\<open>quantity\<close> is an \<open>int\<close>. Nullable columns and optional interface fields are
  \<open>option\<close>s. Identifiers and timestamps are kept as text. The columns \<^verbatim>\<open>id\<close> and
  \<^verbatim>\<open>notes\<close> are called \<open>row_id\<close> and \<open>notes_col\<close> here.
\<close>

type_synonym number = rat
type_synonym uuid = string
type_synonym timestamp = string

datatype transaction_type = Buy | Sell

record TradingRecord =
  row_id :: uuid
  user_id :: uuid
  trade_date :: string
  stock_symbol :: string
  stock_name :: "string option"
  transaction_type :: transaction_type
  quantity :: int
  price :: number
  commission :: "number option"
  tax :: "number option"
  notes_col :: "string option"
  created_at :: timestamp
  updated_at :: timestamp

section \<open>Statistics of the dashboard\<close>

text \<open>
  \<^verbatim>\<open>x || 0\<close> on an optional number: \<^verbatim>\<open>undefined\<close>, \<^verbatim>\<open>null\<close> and \<^verbatim>\<open>0\<close> are falsy and give
  the right operand, every other number gives itself.
\<close>

definition or_zero :: "number option \<Rightarrow> number" where
  "or_zero x = (case x of None \<Rightarrow> 0 | Some v \<Rightarrow> if v = 0 then 0 else v)"

text \<open>\<^verbatim>\<open>r.quantity * r.price\<close>\<close>

definition amount :: "TradingRecord \<Rightarrow> number" where
  "amount r = of_int (quantity r) * price r"

text \<open>
  \<^verbatim>\<open>records.filter(r => r.transaction_type === 'buy').reduce((sum, r) => sum + (r.quantity * r.price), 0)\<close>;
  \<^verbatim>\<open>reduce\<close> is a left fold.
\<close>

definition totalInvestment :: "TradingRecord list \<Rightarrow> number" where
  "totalInvestment records =
     foldl (\<lambda>sum r. sum + amount r) 0 (filter (\<lambda>r. transaction_type r = Buy) records)"

definition totalReturn :: "TradingRecord list \<Rightarrow> number" where
  "totalReturn records =
     foldl (\<lambda>sum r. sum + amount r) 0 (filter (\<lambda>r. transaction_type r = Sell) records)"

text \<open>\<^verbatim>\<open>records.reduce((sum, r) => sum + (r.commission || 0) + (r.tax || 0), 0)\<close>\<close>

definition totalFees :: "TradingRecord list \<Rightarrow> number" where
  "totalFees records =
     foldl (\<lambda>sum r. sum + or_zero (commission r) + or_zero (tax r)) 0 records"

definition totalPnL :: "TradingRecord list \<Rightarrow> number" where
  "totalPnL records = totalReturn records - totalInvestment records - totalFees records"

text \<open>The third summary card shows \<^verbatim>\<open>records.length\<close>.\<close>

definition tradeCount :: "TradingRecord list \<Rightarrow> nat" where
  "tradeCount records = length records"

text \<open>
  The sums as the specification words them: an absent commission or tax counts as 0, and the
  records of one transaction type are selected.
\<close>

definition absent_as_zero :: "number option \<Rightarrow> number" where
  "absent_as_zero x = (case x of None \<Rightarrow> 0 | Some v \<Rightarrow> v)"

definition records_of_type :: "transaction_type \<Rightarrow> TradingRecord list \<Rightarrow> TradingRecord list" where
  "records_of_type t records = [r \<leftarrow> records. transaction_type r = t]"

text \<open>
  The last cell of a table row: the sign character, then \<^verbatim>\<open>$\<close> and
  \<^verbatim>\<open>(record.quantity * record.price + (record.commission || 0) + (record.tax || 0)).toLocaleString()\<close>.
  The grouping of digits by \<^verbatim>\<open>toLocaleString\<close> is not modelled: the cell is the pair of the sign
  character and the number that is printed after it.
\<close>

definition row_sign :: "TradingRecord \<Rightarrow> char" where
  "row_sign record = (if transaction_type record = Buy then CHR ''-'' else CHR ''+'')"

definition row_total :: "TradingRecord \<Rightarrow> number" where
  "row_total record = amount record + or_zero (commission record) + or_zero (tax record)"

definition row_cell :: "TradingRecord \<Rightarrow> char \<times> number" where
  "row_cell record = (row_sign record, row_total record)"

text \<open>The number a reader takes from a cell: the printed number, negated under a minus sign.\<close>

definition cell_value :: "char \<times> number \<Rightarrow> number" where
  "cell_value cell = (if fst cell = CHR ''-'' then - snd cell else snd cell)"

section \<open>The hook useUserRole\<close>

datatype app_role = Admin | User

text \<open>\<^verbatim>\<open>type UserRole = 'admin' | 'user' | null\<close>\<close>

type_synonym UserRole = "app_role option"

text \<open>
  What \<^verbatim>\<open>await supabase.from('user_roles').select('role').eq('user_id', user.id).maybeSingle()\<close>
  can do: resolve to \<^verbatim>\<open>{ data, error }\<close>, where \<open>data\<close> is the \<^verbatim>\<open>role\<close> of the matching row
  (\<open>None\<close> when no row matches) and \<open>error\<close> the store's error message if any, or throw.
\<close>

datatype lookup = Response (data: "app_role option") (error: "string option") | Throws

text \<open>The argument of the \<^verbatim>\<open>setRole\<close> call that \<^verbatim>\<open>fetchUserRole\<close> makes after the \<^verbatim>\<open>await\<close>.\<close>

definition resolved_role :: "lookup \<Rightarrow> app_role" where
  "resolved_role l =
     (case l of
        Throws \<Rightarrow> User
      | Response d e \<Rightarrow>
          (case e of
             Some _ \<Rightarrow> User
           | None \<Rightarrow> (case d of None \<Rightarrow> User | Some r \<Rightarrow> r)))"

text \<open>
  One run of the effect: its own \<^verbatim>\<open>mounted\<close> flag, the user its closure captured, and whether
  its lookup is still in flight.
\<close>

record effect_run =
  mounted :: bool
  lookup_for :: "uuid option"
  awaiting :: bool

record hook =
  role :: UserRole
  loading :: bool
  effects :: "effect_run list"

definition initial_hook :: hook where
  "initial_hook = \<lparr>role = None, loading = True, effects = []\<rparr>"

text \<open>The cleanup function of the latest run: \<^verbatim>\<open>mounted = false\<close>.\<close>

definition cleanup :: "effect_run list \<Rightarrow> effect_run list" where
  "cleanup es = (if es = [] then [] else butlast es @ [(last es)\<lparr>mounted := False\<rparr>])"

text \<open>
  \<^verbatim>\<open>fetchUserRole\<close> up to its \<^verbatim>\<open>await\<close>, in a fresh run of the effect (whose \<^verbatim>\<open>mounted\<close> is
  true): without a user it sets the role to \<^verbatim>\<open>null\<close> and \<^verbatim>\<open>loading\<close> to false and returns,
  with a user it issues the lookup.
\<close>

definition fetchUserRole_start :: "uuid option \<Rightarrow> hook \<Rightarrow> hook" where
  "fetchUserRole_start u h =
     (case u of
        None \<Rightarrow>
          h\<lparr>role := None, loading := False,
            effects := effects h @ [\<lparr>mounted = True, lookup_for = None, awaiting = False\<rparr>]\<rparr>
      | Some i \<Rightarrow>
          h\<lparr>effects := effects h @ [\<lparr>mounted = True, lookup_for = Some i, awaiting = True\<rparr>]\<rparr>)"

text \<open>
  The effect depends on \<^verbatim>\<open>[user]\<close>: when the user changes (and on the first render) React
  runs the cleanup of the previous run and then the effect again.
\<close>

definition user_changed :: "uuid option \<Rightarrow> hook \<Rightarrow> hook" where
  "user_changed u h = fetchUserRole_start u (h\<lparr>effects := cleanup (effects h)\<rparr>)"

text \<open>
  The lookup of run \<open>k\<close> settles and the rest of \<^verbatim>\<open>fetchUserRole\<close> runs: \<^verbatim>\<open>setRole\<close> in every
  branch, and in \<^verbatim>\<open>finally\<close> the call \<^verbatim>\<open>setLoading(false)\<close> under \<^verbatim>\<open>if (mounted)\<close>. The state
  setters are those of the one component, whichever run calls them.
\<close>

definition fetchUserRole_resume :: "nat \<Rightarrow> lookup \<Rightarrow> hook \<Rightarrow> hook" where
  "fetchUserRole_resume k l h =
     (if k < length (effects h) \<and> awaiting (effects h ! k) then
        h\<lparr>role := Some (resolved_role l),
          loading := (if mounted (effects h ! k) then False else loading h),
          effects := (effects h)[k := (effects h ! k)\<lparr>awaiting := False\<rparr>]\<rparr>
      else h)"

text \<open>\<^verbatim>\<open>const isAdmin = role === 'admin'\<close>\<close>

definition isAdmin :: "hook \<Rightarrow> bool" where
  "isAdmin h = (role h = Some Admin)"

datatype event = UserChanged "uuid option" | LookupSettled nat lookup

fun step :: "hook \<Rightarrow> event \<Rightarrow> hook" where
  "step h (UserChanged u) = user_changed u h"
| "step h (LookupSettled k l) = fetchUserRole_resume k l h"

definition run :: "event list \<Rightarrow> hook" where
  "run evs = foldl step initial_hook evs"



section \<open>The form TradingRecordForm\<close>

text \<open>
  The value of an \<^verbatim>\<open><input type="number">\<close> is the empty string or the text of a number. Of
  such a text the code reads two things, which is what the model keeps: the integer that
  \<^verbatim>\<open>parseInt\<close> finds at its start, and the number that \<^verbatim>\<open>parseFloat\<close> reads
  (for \<^verbatim>\<open>"12.5"\<close> that is 12 and 12.5, for \<^verbatim>\<open>"1e3"\<close> 1 and 1000).
\<close>

datatype number_text = Blank | Numeric int number

text \<open>\<open>None\<close> stands for \<^verbatim>\<open>NaN\<close>.\<close>

definition parseInt :: "number_text \<Rightarrow> int option" where
  "parseInt t = (case t of Blank \<Rightarrow> None | Numeric i v \<Rightarrow> Some i)"

definition parseFloat :: "number_text \<Rightarrow> number option" where
  "parseFloat t = (case t of Blank \<Rightarrow> None | Numeric i v \<Rightarrow> Some v)"



record formData =
  form_trade_date :: string
  form_stock_symbol :: string
  form_stock_name :: string
  form_transaction_type :: transaction_type
  form_quantity :: number_text
  form_price :: number_text
  form_commission :: number_text
  form_tax :: number_text
  form_notes :: string





text \<open>
  \<^verbatim>\<open>toUpperCase()\<close>, on the ASCII letters; every other character is left as it is.
\<close>

definition upper_table :: "(char \<times> char) list" where
  "upper_table = zip ''abcdefghijklmnopqrstuvwxyz'' ''ABCDEFGHIJKLMNOPQRSTUVWXYZ''"

definition toUpperCase_char :: "char \<Rightarrow> char" where
  "toUpperCase_char c = (case map_of upper_table c of Some u \<Rightarrow> u | None \<Rightarrow> c)"

definition toUpperCase :: "string \<Rightarrow> string" where
  "toUpperCase s = map toUpperCase_char s"

text \<open>
  The values of the request body. \<^verbatim>\<open>JSON.stringify\<close> writes \<^verbatim>\<open>NaN\<close> as \<^verbatim>\<open>null\<close>.
\<close>

datatype json = JNull | JString string | JNumber number

definition json_number :: "number option \<Rightarrow> json" where
  "json_number x = (case x of None \<Rightarrow> JNull | Some v \<Rightarrow> JNumber v)"

definition json_type :: "transaction_type \<Rightarrow> json" where
  "json_type t = (case t of Buy \<Rightarrow> JString ''buy'' | Sell \<Rightarrow> JString ''sell'')"

text \<open>\<^verbatim>\<open>s || null\<close> on a string.\<close>

definition or_null :: "string \<Rightarrow> json" where
  "or_null s = (if s = [] then JNull else JString s)"

text \<open>\<^verbatim>\<open>s ? parseFloat(s) : 0\<close>: the empty string is falsy, every other string truthy.\<close>

definition parseFloat_or_0 :: "number_text \<Rightarrow> number option" where
  "parseFloat_or_0 t = (if t = Blank then Some 0 else parseFloat t)"

text \<open>The object \<^verbatim>\<open>recordData\<close> of \<^verbatim>\<open>handleSubmit\<close>, key by key.\<close>

definition recordData :: "formData \<Rightarrow> (string \<times> json) list" where
  "recordData fd =
     [(''trade_date'', JString (form_trade_date fd)),
      (''stock_symbol'', JString (toUpperCase (form_stock_symbol fd))),
      (''stock_name'', or_null (form_stock_name fd)),
      (''transaction_type'', json_type (form_transaction_type fd)),
      (''quantity'', json_number (map_option of_int (parseInt (form_quantity fd)))),
      (''price'', json_number (parseFloat (form_price fd))),
      (''commission'', json_number (parseFloat_or_0 (form_commission fd))),
      (''tax'', json_number (parseFloat_or_0 (form_tax fd))),
      (''notes'', or_null (form_notes fd))]"

section \<open>The table trading_records\<close>

datatype store_error =
    NotNullViolation string
  | InvalidInput string
  | UndefinedColumn string
  | UniqueViolation
  | PolicyViolation

definition is_digit :: "char \<Rightarrow> bool" where
  "is_digit c = (c \<in> set ''0123456789'')"

text \<open>
  The text of a \<^verbatim>\<open>DATE\<close> as the store prints it and as an \<^verbatim>\<open><input type="date">\<close> holds it:
  \<^verbatim>\<open>YYYY-MM-DD\<close>. The ranges of month and day are not checked here, and the other spellings
  of a date that the store would read are refused.
\<close>

definition is_date :: "string \<Rightarrow> bool" where
  "is_date s =
     list_all2 (\<lambda>d c. if d = CHR ''-'' then c = CHR ''-'' else is_digit c) ''YYYY-MM-DD'' s"

text \<open>The range of the type \<^verbatim>\<open>INTEGER\<close>.\<close>

definition is_int4 :: "int \<Rightarrow> bool" where
  "is_int4 q = (- 2147483648 \<le> q \<and> q \<le> 2147483647)"

text \<open>
  One column of a row receives one value of the request body, by the column's type in
  \<^verbatim>\<open>CREATE TABLE public.trading_records\<close>. A \<^verbatim>\<open>NOT NULL\<close> column refuses \<^verbatim>\<open>null\<close>. A value
  of another JSON type than the column's is refused in the model; this client sends none.
\<close>

definition set_text :: "string \<Rightarrow> json \<Rightarrow> (string \<Rightarrow> 'r) \<Rightarrow> store_error + 'r" where
  "set_text c v upd =
     (case v of
        JNull \<Rightarrow> Inl (NotNullViolation c)
      | JString s \<Rightarrow> Inr (upd s)
      | JNumber n \<Rightarrow> Inl (InvalidInput c))"

definition set_text_null :: "string \<Rightarrow> json \<Rightarrow> (string option \<Rightarrow> 'r) \<Rightarrow> store_error + 'r" where
  "set_text_null c v upd =
     (case v of
        JNull \<Rightarrow> Inr (upd None)
      | JString s \<Rightarrow> Inr (upd (Some s))
      | JNumber n \<Rightarrow> Inl (InvalidInput c))"

definition set_numeric_null :: "string \<Rightarrow> json \<Rightarrow> (number option \<Rightarrow> 'r) \<Rightarrow> store_error + 'r" where
  "set_numeric_null c v upd =
     (case v of
        JNull \<Rightarrow> Inr (upd None)
      | JString s \<Rightarrow> Inl (InvalidInput c)
      | JNumber n \<Rightarrow> Inr (upd (Some n)))"

definition set_column :: "string \<times> json \<Rightarrow> TradingRecord \<Rightarrow> store_error + TradingRecord" where
  "set_column a r =
     (let c = fst a; v = snd a in
      if c = ''id'' then set_text c v (\<lambda>s. r\<lparr>row_id := s\<rparr>)
      else if c = ''user_id'' then set_text c v (\<lambda>s. r\<lparr>user_id := s\<rparr>)
      else if c = ''trade_date'' then
        (case v of
           JNull \<Rightarrow> Inl (NotNullViolation c)
         | JString s \<Rightarrow> if is_date s then Inr (r\<lparr>trade_date := s\<rparr>) else Inl (InvalidInput c)
         | JNumber n \<Rightarrow> Inl (InvalidInput c))
      else if c = ''stock_symbol'' then set_text c v (\<lambda>s. r\<lparr>stock_symbol := s\<rparr>)
      else if c = ''stock_name'' then set_text_null c v (\<lambda>s. r\<lparr>stock_name := s\<rparr>)
      else if c = ''transaction_type'' then
        (case v of
           JNull \<Rightarrow> Inl (NotNullViolation c)
         | JString s \<Rightarrow>
             if s = ''buy'' then Inr (r\<lparr>transaction_type := Buy\<rparr>)
             else if s = ''sell'' then Inr (r\<lparr>transaction_type := Sell\<rparr>)
             else Inl (InvalidInput c)
         | JNumber n \<Rightarrow> Inl (InvalidInput c))
      else if c = ''quantity'' then
        (case v of
           JNull \<Rightarrow> Inl (NotNullViolation c)
         | JString s \<Rightarrow> Inl (InvalidInput c)
         | JNumber n \<Rightarrow>
             if of_int \<lfloor>n\<rfloor> = n \<and> is_int4 \<lfloor>n\<rfloor> then Inr (r\<lparr>quantity := \<lfloor>n\<rfloor>\<rparr>)
             else Inl (InvalidInput c))
      else if c = ''price'' then
        (case v of
           JNull \<Rightarrow> Inl (NotNullViolation c)
         | JString s \<Rightarrow> Inl (InvalidInput c)
         | JNumber n \<Rightarrow> Inr (r\<lparr>price := n\<rparr>))
      else if c = ''commission'' then set_numeric_null c v (\<lambda>n. r\<lparr>commission := n\<rparr>)
      else if c = ''tax'' then set_numeric_null c v (\<lambda>n. r\<lparr>tax := n\<rparr>)
      else if c = ''notes'' then set_text_null c v (\<lambda>s. r\<lparr>notes_col := s\<rparr>)
      else if c = ''created_at'' then set_text c v (\<lambda>s. r\<lparr>created_at := s\<rparr>)
      else if c = ''updated_at'' then set_text c v (\<lambda>s. r\<lparr>updated_at := s\<rparr>)
      else Inl (UndefinedColumn c))"

fun set_columns :: "(string \<times> json) list \<Rightarrow> TradingRecord \<Rightarrow> store_error + TradingRecord" where
  "set_columns [] r = Inr r"
| "set_columns (a # as) r =
     (case set_column a r of Inl e \<Rightarrow> Inl e | Inr r' \<Rightarrow> set_columns as r')"

text \<open>
  The trigger function \<^verbatim>\<open>update_updated_at_column\<close>, run \<^verbatim>\<open>BEFORE UPDATE ... FOR EACH ROW\<close>;
  \<open>now\<close> is the value of \<^verbatim>\<open>now()\<close>.
\<close>

definition update_updated_at_column :: "timestamp \<Rightarrow> TradingRecord \<Rightarrow> TradingRecord" where
  "update_updated_at_column now NEW = NEW\<lparr>updated_at := now\<rparr>"

text \<open>
  \<^verbatim>\<open>UPDATE\<close> of one row that the statement selected: the columns of the body are set, the
  trigger runs, and the policy \<^verbatim>\<open>USING (auth.uid() = user_id)\<close>, which has no
  \<^verbatim>\<open>WITH CHECK\<close> of its own, is checked on the new row as well.
\<close>

definition update_row ::
  "uuid option \<Rightarrow> (string \<times> json) list \<Rightarrow> timestamp \<Rightarrow> TradingRecord \<Rightarrow> store_error + TradingRecord" where
  "update_row auth_uid body now r =
     (case set_columns body r of
        Inl e \<Rightarrow> Inl e
      | Inr r' \<Rightarrow>
          if auth_uid = Some (user_id r') then Inr (update_updated_at_column now r')
          else Inl PolicyViolation)"

text \<open>
  \<^verbatim>\<open>.update(body).eq('id', rid)\<close>: the rows with that id which the policy lets the caller see
  are updated, the others are left alone; one failure fails the statement.
\<close>

fun update_rows ::
  "uuid option \<Rightarrow> (string \<times> json) list \<Rightarrow> uuid \<Rightarrow> timestamp \<Rightarrow> TradingRecord list
     \<Rightarrow> store_error + TradingRecord list" where
  "update_rows auth_uid body rid now [] = Inr []"
| "update_rows auth_uid body rid now (r # rs) =
     (case (if row_id r = rid \<and> auth_uid = Some (user_id r) then update_row auth_uid body now r
            else Inr r) of
        Inl e \<Rightarrow> Inl e
      | Inr r' \<Rightarrow>
          (case update_rows auth_uid body rid now rs of
             Inl e \<Rightarrow> Inl e
           | Inr rs' \<Rightarrow> Inr (r' # rs')))"

definition db_update ::
  "uuid option \<Rightarrow> (string \<times> json) list \<Rightarrow> uuid \<Rightarrow> timestamp \<Rightarrow> TradingRecord list
     \<Rightarrow> store_error + TradingRecord list" where
  "db_update auth_uid body rid now table =
     (case update_rows auth_uid body rid now table of
        Inl e \<Rightarrow> Inl e
      | Inr table' \<Rightarrow> if distinct (map row_id table') then Inr table' else Inl UniqueViolation)"

text \<open>
  \<^verbatim>\<open>INSERT\<close>: the columns without a default must be in the body; the others start from
  their defaults (\<open>new_id\<close> is the value of \<^verbatim>\<open>gen_random_uuid()\<close>); the policy
  \<^verbatim>\<open>WITH CHECK (auth.uid() = user_id)\<close> and the primary key are checked.
\<close>

definition required_columns :: "string list" where
  "required_columns =
     [''user_id'', ''trade_date'', ''stock_symbol'', ''transaction_type'', ''quantity'', ''price'']"

definition default_row :: "uuid \<Rightarrow> timestamp \<Rightarrow> TradingRecord" where
  "default_row new_id now =
     \<lparr>row_id = new_id, user_id = [], trade_date = [], stock_symbol = [], stock_name = None,
      transaction_type = Buy, quantity = 0, price = 0, commission = Some 0, tax = Some 0,
      notes_col = None, created_at = now, updated_at = now\<rparr>"

definition db_insert ::
  "uuid option \<Rightarrow> (string \<times> json) list \<Rightarrow> uuid \<Rightarrow> timestamp \<Rightarrow> TradingRecord list
     \<Rightarrow> store_error + TradingRecord list" where
  "db_insert auth_uid body new_id now table =
     (case filter (\<lambda>c. c \<notin> fst ` set body) required_columns of
        c # cs \<Rightarrow> Inl (NotNullViolation c)
      | [] \<Rightarrow>
          (case set_columns body (default_row new_id now) of
             Inl e \<Rightarrow> Inl e
           | Inr r \<Rightarrow>
               if auth_uid \<noteq> Some (user_id r) then Inl PolicyViolation
               else if row_id r \<in> row_id ` set table then Inl UniqueViolation
               else Inr (table @ [r])))"

section \<open>Submitting the form\<close>

datatype submit_error = NotAuthenticated | StoreError store_error

text \<open>
  \<^verbatim>\<open>handleSubmit\<close>. \<open>user\<close> is \<^verbatim>\<open>user?.id\<close> of the signed-in user, which is also what
  \<^verbatim>\<open>auth.uid()\<close> is at the store for the requests of this client; \<open>record\<close> is the record being
  edited, if any. The result is the error that the \<^verbatim>\<open>catch\<close> block reports, if any, and the
  table afterwards. A request that does not reach the store is not modelled.
\<close>

definition handleSubmit ::
  "uuid option \<Rightarrow> TradingRecord option \<Rightarrow> formData \<Rightarrow> uuid \<Rightarrow> timestamp \<Rightarrow> TradingRecord list
     \<Rightarrow> submit_error option \<times> TradingRecord list" where
  "handleSubmit user record fd new_id now table =
     (case record of
        Some rec \<Rightarrow>
          (case db_update user (recordData fd) (row_id rec) now table of
             Inl e \<Rightarrow> (Some (StoreError e), table)
           | Inr table' \<Rightarrow> (None, table'))
      | None \<Rightarrow>
          (case user of
             None \<Rightarrow> (Some NotAuthenticated, table)
           | Some i \<Rightarrow>
               if i = [] then (Some NotAuthenticated, table)
               else
                 (case db_insert user (recordData fd @ [(''user_id'', JString i)]) new_id now table of
                    Inl e \<Rightarrow> (Some (StoreError e), table)
                  | Inr table' \<Rightarrow> (None, table'))))"

section \<open>Predicates and examples used in the statements\<close>

text \<open>
  A record none of whose numbers is negative (an absent commission or tax counts as 0).
\<close>

definition nonnegative :: "TradingRecord \<Rightarrow> bool" where
  "nonnegative r =
     (0 \<le> quantity r \<and> 0 \<le> price r \<and> 0 \<le> absent_as_zero (commission r)
      \<and> 0 \<le> absent_as_zero (tax r))"

text \<open>The lookup of run \<open>k\<close> of the effect has not settled yet.\<close>

definition in_flight :: "nat \<Rightarrow> hook \<Rightarrow> bool" where
  "in_flight k h = (k < length (effects h) \<and> awaiting (effects h ! k))"

text \<open>The columns that the form has no field for.\<close>

definition protected_columns :: "string set" where
  "protected_columns = {''id'', ''user_id'', ''created_at''}"

definition example_buy :: TradingRecord where
  "example_buy =
     \<lparr>row_id = ''r1'', user_id = ''u1'', trade_date = ''2025-01-15'', stock_symbol = ''2330'',
      stock_name = None, transaction_type = Buy, quantity = 10, price = 100,
      commission = Some 5, tax = None, notes_col = None,
      created_at = ''t0'', updated_at = ''t0''\<rparr>"

definition example_sell :: TradingRecord where
  "example_sell =
     \<lparr>row_id = ''r2'', user_id = ''u1'', trade_date = ''2025-02-03'', stock_symbol = ''2330'',
      stock_name = Some ''TSMC'', transaction_type = Sell, quantity = 10, price = 110,
      commission = Some 5, tax = Some 3, notes_col = None,
      created_at = ''t1'', updated_at = ''t1''\<rparr>"



text \<open>
  The row that a request body built from the form \<open>fd\<close> makes of the row \<open>r\<close>, when the
  store accepts the body; \<open>q\<close> and \<open>p\<close> are the quantity and the price read from the form.
\<close>

definition submitted_row :: "formData \<Rightarrow> int \<Rightarrow> number \<Rightarrow> TradingRecord \<Rightarrow> TradingRecord" where
  "submitted_row fd q p r =
     r\<lparr>trade_date := form_trade_date fd,
       stock_symbol := toUpperCase (form_stock_symbol fd),
       stock_name := (if form_stock_name fd = [] then None else Some (form_stock_name fd)),
       transaction_type := form_transaction_type fd,
       quantity := q,
       price := p,
       commission := parseFloat_or_0 (form_commission fd),
       tax := parseFloat_or_0 (form_tax fd),
       notes_col := (if form_notes fd = [] then None else Some (form_notes fd))\<rparr>"

text \<open>The store accepts the body built from the form: date, quantity and price are there.\<close>

definition accepted :: "formData \<Rightarrow> int \<Rightarrow> number \<Rightarrow> bool" where
  "accepted fd q p =
     (is_date (form_trade_date fd) \<and> parseInt (form_quantity fd) = Some q \<and> is_int4 q
      \<and> parseFloat (form_price fd) = Some p)"

text \<open>
  A row as the form writes it: date and quantity as their column types have them, the symbol
  in upper case, commission and tax not null, stock name and notes not the empty string.
\<close>

definition normalized :: "TradingRecord \<Rightarrow> bool" where
  "normalized r =
     (is_date (trade_date r) \<and> is_int4 (quantity r)
      \<and> toUpperCase (stock_symbol r) = stock_symbol r
      \<and> stock_name r \<noteq> Some [] \<and> notes_col r \<noteq> Some []
      \<and> commission r \<noteq> None \<and> tax r \<noteq> None)"



definition example_form :: formData where
  "example_form =
     \<lparr>form_trade_date = ''2025-01-15'', form_stock_symbol = ''tsm'', form_stock_name = [],
      form_transaction_type = Buy, form_quantity = Numeric 10 10, form_price = Numeric 100 100,
      form_commission = Blank, form_tax = Blank, form_notes = []\<rparr>"

definition example_created :: TradingRecord where
  "example_created =
     \<lparr>row_id = ''r9'', user_id = ''u1'', trade_date = ''2025-01-15'', stock_symbol = ''TSM'',
      stock_name = None, transaction_type = Buy, quantity = 10, price = 100,
      commission = Some 0, tax = Some 0, notes_col = None,
      created_at = ''t5'', updated_at = ''t5''\<rparr>"

section \<open>Properties of the statistics\<close>

lemma or_zero_absent: "or_zero x = absent_as_zero x"
  by (cases x) (simp_all add: or_zero_def absent_as_zero_def)

lemma foldl_plus_sum_list:
  fixes f :: "'a \<Rightarrow> number"
  shows "foldl (\<lambda>sum r. sum + f r) a xs = a + sum_list (map f xs)"
  by (induction xs arbitrary: a) (simp_all add: add.assoc)

lemma foldl_fees_sum_list:
  "foldl (\<lambda>sum r. sum + or_zero (commission r) + or_zero (tax r)) a xs
     = a + (\<Sum>r \<leftarrow> xs. absent_as_zero (commission r) + absent_as_zero (tax r))"
  by (induction xs arbitrary: a) (simp_all add: or_zero_absent add.assoc)

lemma totalInvestment_sum_list:
  "totalInvestment records
     = (\<Sum>r \<leftarrow> records_of_type Buy records. of_int (quantity r) * price r)"
  unfolding totalInvestment_def records_of_type_def amount_def
  by (simp add: foldl_plus_sum_list)

lemma totalReturn_sum_list:
  "totalReturn records
     = (\<Sum>r \<leftarrow> records_of_type Sell records. of_int (quantity r) * price r)"
  unfolding totalReturn_def records_of_type_def amount_def
  by (simp add: foldl_plus_sum_list)

lemma totalFees_sum_list:
  "totalFees records
     = (\<Sum>r \<leftarrow> records. absent_as_zero (commission r) + absent_as_zero (tax r))"
  unfolding totalFees_def by (simp add: foldl_fees_sum_list)

lemma sum_list_map_nonneg:
  fixes f :: "'a \<Rightarrow> number"
  assumes "\<And>x. x \<in> set xs \<Longrightarrow> 0 \<le> f x"
  shows "0 \<le> sum_list (map f xs)"
  using assms by (induction xs) simp_all


text \<open>
  C4, as amended. For every list of records none of which has a negative quantity, price,
  commission or tax, totalInvestment, totalReturn and totalFees are not negative; and there
  is such a list whose net profit or loss is negative.
\<close>

theorem C4_nonnegative_totals:
  "((\<forall>r \<in> set records. nonnegative r) \<longrightarrow>
      0 \<le> totalInvestment records \<and> 0 \<le> totalReturn records \<and> 0 \<le> totalFees records)
   \<and> (\<exists>rs. (\<forall>r \<in> set rs. nonnegative r) \<and> totalPnL rs < 0)"
proof (intro conjI impI)
  assume nn: "\<forall>r \<in> set records. nonnegative r"
  show "0 \<le> totalInvestment records"
    unfolding totalInvestment_sum_list records_of_type_def
    using nn by (intro sum_list_map_nonneg) (simp add: nonnegative_def)
  show "0 \<le> totalReturn records"
    unfolding totalReturn_sum_list records_of_type_def
    using nn by (intro sum_list_map_nonneg) (simp add: nonnegative_def)
  show "0 \<le> totalFees records"
    unfolding totalFees_sum_list
    using nn by (intro sum_list_map_nonneg) (simp add: nonnegative_def)
next
  have "(\<forall>r \<in> set [example_buy]. nonnegative r) \<and> totalPnL [example_buy] < 0"
    by (simp add: nonnegative_def example_buy_def absent_as_zero_def totalPnL_def
        totalReturn_def totalInvestment_def totalFees_def amount_def or_zero_def)
  then show "\<exists>rs. (\<forall>r \<in> set rs. nonnegative r) \<and> totalPnL rs < 0" by blast
qed

theorem C4_nonnegative_totals_witness:
  "nonnegative example_buy \<and> nonnegative example_sell
   \<and> 0 \<le> totalInvestment [example_buy, example_sell]
   \<and> 0 \<le> totalReturn [example_buy, example_sell]
   \<and> 0 \<le> totalFees [example_buy, example_sell]"
proof -
  have nn: "nonnegative example_buy \<and> nonnegative example_sell"
    by (simp add: nonnegative_def example_buy_def example_sell_def absent_as_zero_def)
  then have "\<forall>r \<in> set [example_buy, example_sell]. nonnegative r" by simp
  with C4_nonnegative_totals [of "[example_buy, example_sell]"] nn show ?thesis by blast
qed

text \<open>
  The statement of C4 for any list fails: one buy record of 10 shares at the price -1 has the
  total investment -10.
\<close>

theorem C4_negative_price_counterexample:
  "totalInvestment [example_buy\<lparr>price := - 1\<rparr>] < 0"
  by (simp add: example_buy_def totalInvestment_def amount_def)

text \<open>
  C8. On the empty list every statistic is zero and the trade count is 0; each of them is a
  value, none an error.
\<close>

theorem C8_empty_list_all_zero:
  "totalInvestment [] = 0 \<and> totalReturn [] = 0 \<and> totalFees [] = 0 \<and> totalPnL [] = 0
   \<and> tradeCount [] = 0"
  by (simp add: totalInvestment_def totalReturn_def totalFees_def totalPnL_def tradeCount_def)

section \<open>Properties of the row display\<close>

text \<open>
  C5. The value shown in the last cell of a row is minus (quantity times price plus
  commission plus tax) for a buy record and plus the same sum for a sell record, an absent
  commission or tax counting as 0.
\<close>

theorem C5_row_display_value:
  "(transaction_type r = Buy \<longrightarrow>
      row_sign r = CHR ''-''
      \<and> cell_value (row_cell r)
          = - (of_int (quantity r) * price r + absent_as_zero (commission r)
               + absent_as_zero (tax r)))
   \<and> (transaction_type r = Sell \<longrightarrow>
      row_sign r = CHR ''+''
      \<and> cell_value (row_cell r)
          = of_int (quantity r) * price r + absent_as_zero (commission r)
              + absent_as_zero (tax r))"
  by (simp add: row_sign_def row_cell_def cell_value_def row_total_def amount_def or_zero_absent)

theorem C5_row_display_value_witness:
  "transaction_type example_buy = Buy \<and> cell_value (row_cell example_buy) = - 1005
   \<and> transaction_type example_sell = Sell \<and> cell_value (row_cell example_sell) = 1108"
  using C5_row_display_value [of example_buy] C5_row_display_value [of example_sell]
  by (simp add: example_buy_def example_sell_def absent_as_zero_def)

section \<open>Properties of the role hook\<close>

text \<open>
  C3. While a lookup is in flight for a signed-in user, if it answers without a row, or
  answers with an error of the store, or throws, the role is set to user, not to admin.
\<close>

theorem C3_lookup_without_role_gives_user:
  "in_flight k h \<Longrightarrow>
     role (fetchUserRole_resume k (Response None None) h) = Some User
   \<and> role (fetchUserRole_resume k (Response d (Some e)) h) = Some User
   \<and> role (fetchUserRole_resume k Throws h) = Some User
   \<and> \<not> isAdmin (fetchUserRole_resume k (Response None None) h)
   \<and> \<not> isAdmin (fetchUserRole_resume k (Response d (Some e)) h)
   \<and> \<not> isAdmin (fetchUserRole_resume k Throws h)"
  by (simp add: in_flight_def fetchUserRole_resume_def resolved_role_def isAdmin_def)

theorem C3_lookup_without_role_gives_user_witness:
  "in_flight 0 (run [UserChanged (Some ''A'')])
   \<and> role (run [UserChanged (Some ''A''), LookupSettled 0 (Response None None)]) = Some User
   \<and> role (run [UserChanged (Some ''A''),
                 LookupSettled 0 (Response (Some Admin) (Some ''timeout''))]) = Some User
   \<and> role (run [UserChanged (Some ''A''), LookupSettled 0 Throws]) = Some User"
proof -
  have f: "in_flight 0 (run [UserChanged (Some ''A'')])"
    by (simp add: in_flight_def run_def initial_hook_def user_changed_def cleanup_def
        fetchUserRole_start_def)
  show ?thesis
    using f C3_lookup_without_role_gives_user [OF f, of "Some Admin" "''timeout''"]
    by (simp add: run_def)
qed


section \<open>Properties of the request body and of the store\<close>

lemma set_columns_append:
  "set_columns (xs @ ys) r =
     (case set_columns xs r of Inl e \<Rightarrow> Inl e | Inr r' \<Rightarrow> set_columns ys r')"
  by (induction xs arbitrary: r) (simp_all split: sum.splits)

lemma parseFloat_or_0_json:
  "json_number (parseFloat_or_0 t) = JNumber (case t of Blank \<Rightarrow> 0 | Numeric i v \<Rightarrow> v)"
  by (cases t) (simp_all add: parseFloat_or_0_def parseFloat_def json_number_def)

lemma parseFloat_or_0_Some:
  "parseFloat_or_0 t = Some (case t of Blank \<Rightarrow> 0 | Numeric i v \<Rightarrow> v)"
  by (cases t) (simp_all add: parseFloat_or_0_def parseFloat_def)

lemma set_columns_recordData_accepted:
  assumes "accepted fd q p"
  shows "set_columns (recordData fd) r = Inr (submitted_row fd q p r)"
  using assms
  unfolding accepted_def recordData_def submitted_row_def
  by (cases "form_transaction_type fd")
     (simp_all add: set_column_def set_text_def set_text_null_def set_numeric_null_def
        or_null_def json_type_def json_number_def parseFloat_or_0_json parseFloat_or_0_Some)

lemma set_columns_recordData_Inr:
  assumes "set_columns (recordData fd) r = Inr r'"
  shows "\<exists>q p. accepted fd q p \<and> r' = submitted_row fd q p r"
proof -
  from assms have d: "is_date (form_trade_date fd)"
    unfolding recordData_def
    by (simp add: set_column_def split: if_splits sum.splits)
  from assms obtain q where q: "parseInt (form_quantity fd) = Some q" "is_int4 q"
    unfolding recordData_def
    by (cases "form_transaction_type fd"; cases "parseInt (form_quantity fd)")
       (auto simp: set_column_def set_text_def set_text_null_def or_null_def json_type_def
          json_number_def split: if_splits sum.splits)
  from assms q obtain p where p: "parseFloat (form_price fd) = Some p"
    unfolding recordData_def
    by (cases "form_transaction_type fd"; cases "parseFloat (form_price fd)")
       (auto simp: set_column_def set_text_def set_text_null_def or_null_def json_type_def
          json_number_def split: if_splits sum.splits)
  from d q p have a: "accepted fd q p" by (simp add: accepted_def)
  with set_columns_recordData_accepted [OF a, of r] assms show ?thesis by auto
qed

lemma set_column_frame:
  assumes "fst a \<notin> protected_columns" and "set_column a r = Inr r'"
  shows "row_id r' = row_id r \<and> user_id r' = user_id r \<and> created_at r' = created_at r"
  using assms
  unfolding set_column_def protected_columns_def set_text_def set_text_null_def
    set_numeric_null_def Let_def
  by (auto split: if_splits json.splits)

lemma set_columns_frame:
  assumes "fst ` set body \<inter> protected_columns = {}" and "set_columns body r = Inr r'"
  shows "row_id r' = row_id r \<and> user_id r' = user_id r \<and> created_at r' = created_at r"
  using assms
proof (induction body arbitrary: r)
  case Nil
  then show ?case by simp
next
  case (Cons a body)
  from Cons.prems(2) obtain r1 where a: "set_column a r = Inr r1"
    and rest: "set_columns body r1 = Inr r'"
    by (auto split: sum.splits)
  from Cons.prems(1) have "fst a \<notin> protected_columns"
    and "fst ` set body \<inter> protected_columns = {}" by auto
  with set_column_frame [OF _ a] Cons.IH [OF _ rest] show ?case by simp
qed

lemma recordData_keys:
  "map fst (recordData fd) =
     [''trade_date'', ''stock_symbol'', ''stock_name'', ''transaction_type'', ''quantity'',
      ''price'', ''commission'', ''tax'', ''notes'']"
  by (simp add: recordData_def)

lemma recordData_unprotected: "fst ` set (recordData fd) \<inter> protected_columns = {}"
proof -
  have "fst ` set (recordData fd) = set (map fst (recordData fd))" by simp
  then show ?thesis
    unfolding recordData_keys protected_columns_def by simp
qed



lemma update_rows_frame:
  assumes "fst ` set body \<inter> protected_columns = {}"
    and "update_rows auth_uid body rid now table = Inr table'"
  shows "map row_id table' = map row_id table \<and> map user_id table' = map user_id table
    \<and> map created_at table' = map created_at table"
  using assms(2)
proof (induction table arbitrary: table')
  case Nil
  then show ?case by simp
next
  case (Cons r rs)
  from Cons.prems obtain r' rs' where t: "table' = r' # rs'"
    and r': "(if row_id r = rid \<and> auth_uid = Some (user_id r)
              then update_row auth_uid body now r else Inr r) = Inr r'"
    and rs': "update_rows auth_uid body rid now rs = Inr rs'"
    by (auto split: sum.splits)
  have "row_id r' = row_id r \<and> user_id r' = user_id r \<and> created_at r' = created_at r"
  proof (cases "row_id r = rid \<and> auth_uid = Some (user_id r)")
    case True
    with r' obtain r1 where "set_columns body r = Inr r1"
      and "r' = update_updated_at_column now r1"
      by (auto simp: update_row_def split: sum.splits if_splits)
    with set_columns_frame [OF assms(1), of r r1] show ?thesis
      by (simp add: update_updated_at_column_def)
  next
    case False
    with r' show ?thesis by auto
  qed
  with Cons.IH [OF rs'] t show ?case by simp
qed



lemma db_update_frame:
  assumes "fst ` set body \<inter> protected_columns = {}"
    and "db_update auth_uid body rid now table = Inr table'"
  shows "map row_id table' = map row_id table \<and> map user_id table' = map user_id table
    \<and> map created_at table' = map created_at table"
  using assms(2) update_rows_frame [OF assms(1)]
  by (auto simp: db_update_def split: sum.splits if_splits)



lemma required_columns_present:
  "filter (\<lambda>c. c \<notin> fst ` set (recordData fd @ [(''user_id'', v)])) required_columns = []"
  by (simp add: recordData_def required_columns_def)

lemma insert_body_Inr:
  assumes "set_columns (recordData fd @ [(''user_id'', JString i)]) r0 = Inr r"
  shows "\<exists>q p. accepted fd q p \<and> r = (submitted_row fd q p r0)\<lparr>user_id := i\<rparr>"
proof -
  from assms obtain r1 where r1: "set_columns (recordData fd) r0 = Inr r1"
    and r: "set_column (''user_id'', JString i) r1 = Inr r"
    by (auto simp: set_columns_append split: sum.splits)
  from r have "r = r1\<lparr>user_id := i\<rparr>"
    by (simp add: set_column_def set_text_def)
  with set_columns_recordData_Inr [OF r1] show ?thesis by auto
qed

lemma create_success:
  assumes "handleSubmit user None fd new_id now table = (None, table')"
  shows "\<exists>i q p. user = Some i \<and> i \<noteq> [] \<and> accepted fd q p \<and> new_id \<notin> row_id ` set table
    \<and> table' = table @ [(submitted_row fd q p (default_row new_id now))\<lparr>user_id := i\<rparr>]"
proof -
  from assms obtain i where i: "user = Some i" "i \<noteq> []"
    and ins: "db_insert user (recordData fd @ [(''user_id'', JString i)]) new_id now table
      = Inr table'"
    by (auto simp: handleSubmit_def split: option.splits if_splits sum.splits)
  from ins obtain r where r: "set_columns (recordData fd @ [(''user_id'', JString i)])
      (default_row new_id now) = Inr r"
    and pk: "row_id r \<notin> row_id ` set table" and t: "table' = table @ [r]"
    unfolding db_insert_def required_columns_present
    by (auto split: sum.splits if_splits)
  from insert_body_Inr [OF r] obtain q p where a: "accepted fd q p"
    and r': "r = (submitted_row fd q p (default_row new_id now))\<lparr>user_id := i\<rparr>"
    by auto
  from r' have "row_id r = new_id"
    by (simp add: submitted_row_def default_row_def)
  with pk i a r' t show ?thesis by auto
qed

lemma create_failure:
  "fst (handleSubmit user None fd new_id now table) \<noteq> None
     \<Longrightarrow> snd (handleSubmit user None fd new_id now table) = table"
  by (auto simp: handleSubmit_def split: option.splits if_splits sum.splits)

lemma toUpperCase_char_idem: "toUpperCase_char (toUpperCase_char c) = toUpperCase_char c"
  unfolding toUpperCase_char_def upper_table_def by (simp split: option.splits)

lemma toUpperCase_idem: "toUpperCase (toUpperCase s) = toUpperCase s"
  by (simp add: toUpperCase_def toUpperCase_char_idem)

text \<open>Every row that the form creates is normalized.\<close>

lemma created_row_normalized:
  assumes "handleSubmit user None fd new_id now table = (None, table')"
  shows "normalized (last table')"
proof -
  from create_success [OF assms] obtain i q p where a: "accepted fd q p"
    and t: "table' = table @ [(submitted_row fd q p (default_row new_id now))\<lparr>user_id := i\<rparr>]"
    by auto
  from a show ?thesis
    unfolding t
    by (simp add: normalized_def submitted_row_def accepted_def toUpperCase_idem
        parseFloat_or_0_Some)
qed

lemma example_create:
  "handleSubmit (Some ''u1'') None example_form ''r9'' ''t5'' [example_buy]
   = (None, [example_buy, example_created])"
proof -
  have a: "accepted example_form 10 100"
    by (simp add: accepted_def example_form_def is_date_def is_digit_def parseInt_def
        is_int4_def parseFloat_def)
  have cols: "set_columns (recordData example_form @ [(''user_id'', JString ''u1'')])
      (default_row ''r9'' ''t5'')
    = Inr ((submitted_row example_form 10 100 (default_row ''r9'' ''t5''))\<lparr>user_id := ''u1''\<rparr>)"
    by (simp add: set_columns_append set_columns_recordData_accepted [OF a] set_column_def
        set_text_def)
  have ins: "db_insert (Some ''u1'') (recordData example_form @ [(''user_id'', JString ''u1'')])
      ''r9'' ''t5'' [example_buy]
    = Inr [example_buy, example_created]"
    unfolding db_insert_def required_columns_present cols
    by (simp add: submitted_row_def default_row_def example_form_def example_buy_def
        example_created_def parseFloat_or_0_def toUpperCase_def toUpperCase_char_def upper_table_def)
  show ?thesis
    by (simp add: handleSubmit_def ins)
qed

section \<open>Properties of submitting the form\<close>

text \<open>
  C7. Whenever a create succeeds, the table has one more row; its stock symbol is the
  submitted symbol in upper case, its commission is 0 when the commission field was left
  empty, and its tax is 0 when the tax field was left empty.
\<close>

theorem C7_create_normalizes_symbol_and_fees:
  assumes "handleSubmit user None fd new_id now table = (None, table')"
  shows "\<exists>r. table' = table @ [r]
     \<and> stock_symbol r = toUpperCase (form_stock_symbol fd)
     \<and> (form_commission fd = Blank \<longrightarrow> commission r = Some 0)
     \<and> (form_tax fd = Blank \<longrightarrow> tax r = Some 0)"
proof -
  from create_success [OF assms] obtain i q p where
    t: "table' = table @ [(submitted_row fd q p (default_row new_id now))\<lparr>user_id := i\<rparr>]"
    by auto
  show ?thesis
    unfolding t by (simp add: submitted_row_def parseFloat_or_0_def)
qed

theorem C7_create_normalizes_symbol_and_fees_witness:
  "handleSubmit (Some ''u1'') None example_form ''r9'' ''t5'' [example_buy]
     = (None, [example_buy, example_created])
   \<and> form_stock_symbol example_form = ''tsm'' \<and> stock_symbol example_created = ''TSM''
   \<and> form_commission example_form = Blank \<and> commission example_created = Some 0
   \<and> form_tax example_form = Blank \<and> tax example_created = Some 0"
proof -
  have fields: "form_stock_symbol example_form = ''tsm'' \<and> stock_symbol example_created = ''TSM''
      \<and> form_commission example_form = Blank \<and> commission example_created = Some 0
      \<and> form_tax example_form = Blank \<and> tax example_created = Some 0"
    by (simp add: example_form_def example_created_def)
  show ?thesis
    using C7_create_normalizes_symbol_and_fees [OF example_create] example_create fields
    by simp
qed

text \<open>
  C9. A create without a signed-in user (or with a user whose id is empty) is refused with
  the error that the user is not authenticated, and the table is as before. Whenever a
  create ends in an error the table is as before. Whenever a create succeeds, the one new
  row has the id of the signed-in user as its owner.
\<close>

theorem C9_create_requires_user:
  "handleSubmit None None fd new_id now table = (Some NotAuthenticated, table)
   \<and> handleSubmit (Some []) None fd new_id now table = (Some NotAuthenticated, table)
   \<and> (fst (handleSubmit user None fd new_id now table) \<noteq> None \<longrightarrow>
        snd (handleSubmit user None fd new_id now table) = table)
   \<and> (fst (handleSubmit user None fd new_id now table) = None \<longrightarrow>
        (\<exists>r. snd (handleSubmit user None fd new_id now table) = table @ [r]
           \<and> user = Some (user_id r) \<and> user_id r \<noteq> []))"
proof (intro conjI impI)
  show "handleSubmit None None fd new_id now table = (Some NotAuthenticated, table)"
    by (simp add: handleSubmit_def)
  show "handleSubmit (Some []) None fd new_id now table = (Some NotAuthenticated, table)"
    by (simp add: handleSubmit_def)
  show "snd (handleSubmit user None fd new_id now table) = table"
    if "fst (handleSubmit user None fd new_id now table) \<noteq> None"
    using that by (rule create_failure)
  show "\<exists>r. snd (handleSubmit user None fd new_id now table) = table @ [r]
           \<and> user = Some (user_id r) \<and> user_id r \<noteq> []"
    if "fst (handleSubmit user None fd new_id now table) = None"
  proof -
    from that have "handleSubmit user None fd new_id now table
        = (None, snd (handleSubmit user None fd new_id now table))"
      by (metis prod.collapse)
    from create_success [OF this] show ?thesis by auto
  qed
qed

theorem C9_create_requires_user_witness:
  "handleSubmit None None example_form ''r9'' ''t5'' [example_buy]
     = (Some NotAuthenticated, [example_buy])
   \<and> handleSubmit (Some ''u1'') None example_form ''r9'' ''t5'' [example_buy]
     = (None, [example_buy] @ [example_created])
   \<and> user_id example_created = ''u1''"
  using C9_create_requires_user [of example_form "''r9''" "''t5''" "[example_buy]" "Some ''u1''"]
  by (simp add: example_create example_created_def)

text \<open>
  C10. The body of an update has none of the columns id, user_id and created_at, whatever
  the form holds; and after any update, successful or not, every row of the table has the
  id, the owner and the creation time it had before.
\<close>

theorem C10_update_keeps_id_owner_created_at:
  "''id'' \<notin> fst ` set (recordData fd)
   \<and> ''user_id'' \<notin> fst ` set (recordData fd)
   \<and> ''created_at'' \<notin> fst ` set (recordData fd)
   \<and> map row_id (snd (handleSubmit user (Some rec) fd new_id now table)) = map row_id table
   \<and> map user_id (snd (handleSubmit user (Some rec) fd new_id now table)) = map user_id table
   \<and> map created_at (snd (handleSubmit user (Some rec) fd new_id now table))
       = map created_at table"
proof -
  have keys: "''id'' \<notin> fst ` set (recordData fd) \<and> ''user_id'' \<notin> fst ` set (recordData fd)
      \<and> ''created_at'' \<notin> fst ` set (recordData fd)"
    using recordData_unprotected [of fd] by (auto simp: protected_columns_def)
  have frame: "map row_id (snd (handleSubmit user (Some rec) fd new_id now table)) = map row_id table
      \<and> map user_id (snd (handleSubmit user (Some rec) fd new_id now table)) = map user_id table
      \<and> map created_at (snd (handleSubmit user (Some rec) fd new_id now table))
          = map created_at table"
  proof (cases "db_update user (recordData fd) (row_id rec) now table")
    case (Inl e)
    then show ?thesis by (simp add: handleSubmit_def)
  next
    case (Inr table')
    with db_update_frame [OF recordData_unprotected Inr] show ?thesis
      by (simp add: handleSubmit_def)
  qed
  from keys frame show ?thesis by simp
qed




end
